theory Spec2Isabelle
  imports Main
begin

section \<open>Errors\<close>

text \<open>
  \<^verbatim>\<open>src/utils/errors.ts\<close>: every application error is a subclass of \<^verbatim>\<open>AppError\<close> carrying a
  message. Errors thrown by the Prisma client (a unique constraint that is violated, a
  row to delete that is absent) are a class of their own.
\<close>

datatype error =
    ValidationError string
  | AuthenticationError string
  | NotFoundError string
  | ConflictError string
  | PrismaError string

type_synonym 'a result = "error + 'a"

section \<open>Configuration and environment\<close>

text \<open>
  \<^verbatim>\<open>src/config/index.ts\<close>. The two expiry settings are duration strings in the source
  (\<^verbatim>\<open>'15m'\<close>, \<^verbatim>\<open>'7d'\<close>) that the JWT library turns into seconds; the model holds the seconds.
\<close>

record config =
  JWT_SECRET :: string
  JWT_REFRESH_SECRET :: string
  JWT_EXPIRES_IN :: int
  JWT_REFRESH_EXPIRES_IN :: int

text \<open>
  What one call reads from outside the program: the clock (\<^verbatim>\<open>Date.now()\<close> and
  \<^verbatim>\<open>new Date()\<close>, in milliseconds; the reads of one call are taken at one instant), the
  random strings, the high-resolution timer, and the identifiers and salt generated for
  new rows. The JavaScript runtime the call runs on is part of it: the local time zone
  (\<open>localTZA t isUTC\<close> is the offset of local time from UTC, in milliseconds, at the UTC
  instant \<open>t\<close> when \<open>isUTC\<close> and at the local time \<open>t\<close> otherwise, as in the language
  standard), \<^verbatim>\<open>String.prototype.toLowerCase\<close>, and the white-space class \<^verbatim>\<open>\s\<close> of regular
  expressions. The last two rest on Unicode tables and are taken as they come.
\<close>

record env =
  now :: int
  random :: string
  nanoTime :: string
  sessionRandom :: string
  newId :: string
  newUserId :: string
  salt :: string
  localTZA :: "int \<Rightarrow> bool \<Rightarrow> int"
  toLowerCase :: "string \<Rightarrow> string"
  whiteSpace :: "char \<Rightarrow> bool"

section \<open>Signed tokens\<close>

text \<open>
  The claims of a token. Access tokens carry \<^verbatim>\<open>userId, email, jti\<close>, refresh tokens carry
  \<^verbatim>\<open>userId, tokenVersion, jti\<close>; the library adds \<^verbatim>\<open>iat, exp, iss, aud\<close>. A field that a
  payload does not have reads as \<^verbatim>\<open>undefined\<close> in the source and is \<open>None\<close> here. Times
  inside a token are in seconds.
\<close>

record claims =
  p_userId :: string
  p_email :: "string option"
  p_tokenVersion :: "int option"
  p_jti :: "string option"
  p_iat :: int
  p_exp :: int
  p_iss :: string
  p_aud :: string

text \<open>
  A token string is either the compact serialisation of some claims signed under some
  secret, or any other string. The serialisation is deterministic, so two tokens are the
  same string exactly when secret and claims agree: signing is modelled symbolically.
\<close>

datatype jwt = Jwt string claims | NotJwt string

datatype jwt_error = JsonWebTokenError | TokenExpiredError

text \<open>\<^verbatim>\<open>jwt.sign(payload, secret, {expiresIn, issuer, audience})\<close> at clock \<open>t\<close> (ms).\<close>

definition jwt_sign :: "string \<Rightarrow> string option \<Rightarrow> int option \<Rightarrow> string \<Rightarrow>
    string \<Rightarrow> int \<Rightarrow> string \<Rightarrow> string \<Rightarrow> int \<Rightarrow> jwt" where
  "jwt_sign uid em ver j secret expiresIn issuer audience t =
     Jwt secret \<lparr>p_userId = uid, p_email = em, p_tokenVersion = ver, p_jti = Some j,
       p_iat = t div 1000, p_exp = t div 1000 + expiresIn, p_iss = issuer, p_aud = audience\<rparr>"

text \<open>
  \<^verbatim>\<open>jwt.verify(token, secret, {issuer, audience})\<close> at clock \<open>t\<close> (ms): malformed input and a
  wrong signature first, then expiry (\<^verbatim>\<open>clockTimestamp >= exp\<close>), then audience and issuer.
\<close>

definition jwt_verify :: "jwt \<Rightarrow> string \<Rightarrow> string \<Rightarrow> string \<Rightarrow> int \<Rightarrow> jwt_error + claims" where
  "jwt_verify tok secret issuer audience t =
     (case tok of
        NotJwt _ \<Rightarrow> Inl JsonWebTokenError
      | Jwt k c \<Rightarrow>
          if k \<noteq> secret then Inl JsonWebTokenError
          else if t div 1000 \<ge> p_exp c then Inl TokenExpiredError
          else if p_aud c \<noteq> audience then Inl JsonWebTokenError
          else if p_iss c \<noteq> issuer then Inl JsonWebTokenError
          else Inr c)"

text \<open>\<^verbatim>\<open>jwt.decode(token)\<close>: the payload without any check, \<^verbatim>\<open>null\<close> when malformed.\<close>

definition jwt_decode :: "jwt \<Rightarrow> claims option" where
  "jwt_decode tok = (case tok of NotJwt _ \<Rightarrow> None | Jwt _ c \<Rightarrow> Some c)"

subsection \<open>Numbers in template strings\<close>

fun show_nat :: "nat \<Rightarrow> string" where
  "show_nat n = (if n < 10 then [''0123456789'' ! n]
                 else show_nat (n div 10) @ [''0123456789'' ! (n mod 10)])"

definition show_int :: "int \<Rightarrow> string" where
  "show_int i = (if i < 0 then CHR ''-'' # show_nat (nat (- i)) else show_nat (nat i))"

subsection \<open>JwtService\<close>

record AuthTokens =
  accessToken :: jwt
  refreshToken :: jwt

definition generateAccessToken :: "config \<Rightarrow> int \<Rightarrow> string \<Rightarrow> string \<Rightarrow> string \<Rightarrow> jwt" where
  "generateAccessToken cfg t uid em j =
     jwt_sign uid (Some em) None j (JWT_SECRET cfg) (JWT_EXPIRES_IN cfg)
       ''auth-api'' ''auth-client'' t"

definition generateRefreshToken :: "config \<Rightarrow> int \<Rightarrow> string \<Rightarrow> int \<Rightarrow> string \<Rightarrow> jwt" where
  "generateRefreshToken cfg t uid ver j =
     jwt_sign uid None (Some ver) j (JWT_REFRESH_SECRET cfg) (JWT_REFRESH_EXPIRES_IN cfg)
       ''auth-api'' ''auth-client'' t"

definition generateTokens :: "config \<Rightarrow> env \<Rightarrow> string \<Rightarrow> string \<Rightarrow> int \<Rightarrow> AuthTokens" where
  "generateTokens cfg e uid em ver =
     \<lparr>accessToken = generateAccessToken cfg (now e) uid em
        (''access-'' @ show_int (now e) @ ''-'' @ nanoTime e @ ''-'' @ random e),
      refreshToken = generateRefreshToken cfg (now e) uid ver
        (''refresh-'' @ show_int (now e) @ ''-'' @ nanoTime e @ ''-'' @ random e)\<rparr>"

definition verifyAccessToken :: "config \<Rightarrow> int \<Rightarrow> jwt \<Rightarrow> claims result" where
  "verifyAccessToken cfg t tok =
     (case jwt_verify tok (JWT_SECRET cfg) ''auth-api'' ''auth-client'' t of
        Inr payload \<Rightarrow> Inr payload
      | Inl _ \<Rightarrow> Inl (AuthenticationError ''Invalid or expired access token''))"

definition verifyRefreshToken :: "config \<Rightarrow> int \<Rightarrow> jwt \<Rightarrow> claims result" where
  "verifyRefreshToken cfg t tok =
     (case jwt_verify tok (JWT_REFRESH_SECRET cfg) ''auth-api'' ''auth-client'' t of
        Inr payload \<Rightarrow> Inr payload
      | Inl _ \<Rightarrow> Inl (AuthenticationError ''Invalid or expired refresh token''))"

definition decodeToken :: "jwt \<Rightarrow> claims option" where
  "decodeToken tok = jwt_decode tok"

section \<open>The database\<close>

text \<open>Password hashes: \<^verbatim>\<open>bcrypt.hash\<close> keeps the salt in the hash, \<^verbatim>\<open>bcrypt.compare\<close>
  accepts exactly the password that was hashed (an ideal hash).\<close>

datatype pwhash = Bcrypt string string

definition bcrypt_hash :: "string \<Rightarrow> string \<Rightarrow> pwhash" where
  "bcrypt_hash s plain = Bcrypt s plain"

definition bcrypt_compare :: "string \<Rightarrow> pwhash \<Rightarrow> bool" where
  "bcrypt_compare plain h = (case h of Bcrypt _ p \<Rightarrow> p = plain)"

text \<open>The rows of the two tables (\<^verbatim>\<open>User\<close> and \<^verbatim>\<open>RefreshTokenData\<close> of the types file).
  Dates are milliseconds since the epoch; \<open>tokenVersion\<close> is an integer column, counted
  here in unbounded integers (versions start at 1 and grow by one per rotation).\<close>

record user =
  user_id :: string
  email :: string
  password :: pwhash
  user_createdAt :: int
  user_updatedAt :: int

record session =
  rid :: string
  token :: jwt
  userId :: string
  tokenVersion :: int
  sessionId :: string
  expiresAt :: int
  createdAt :: int
  updatedAt :: int

record db =
  users :: "user list"
  refreshTokens :: "session list"

subsection \<open>Prisma operations on the refresh-token table\<close>

text \<open>\<^verbatim>\<open>findUnique({where: {token}})\<close>\<close>

definition findUnique_token :: "session list \<Rightarrow> jwt \<Rightarrow> session option" where
  "findUnique_token tbl t = find (\<lambda>r. token r = t) tbl"

text \<open>\<^verbatim>\<open>delete({where: {id}})\<close>: throws when no row has the id.\<close>

definition delete_id :: "session list \<Rightarrow> string \<Rightarrow> session list result" where
  "delete_id tbl i =
     (if \<exists>r \<in> set tbl. rid r = i then Inr (filter (\<lambda>r. rid r \<noteq> i) tbl)
      else Inl (PrismaError ''P2025''))"

text \<open>\<^verbatim>\<open>deleteMany({where: {userId}})\<close>\<close>

definition deleteMany_userId :: "session list \<Rightarrow> string \<Rightarrow> session list" where
  "deleteMany_userId tbl uid = filter (\<lambda>r. userId r \<noteq> uid) tbl"

text \<open>Modelled from the spec: the Prisma schema is not among the sources. The spec's data
  model gives the table a key \<open>id\<close> and the unique columns \<open>token\<close> and \<open>sessionId\<close> (the
  source looks rows up and deletes them by each of the three, which Prisma allows for
  unique columns only). \<^verbatim>\<open>create({data})\<close> throws when the new row repeats one of them.\<close>

definition create_session :: "session list \<Rightarrow> session \<Rightarrow> session list result" where
  "create_session tbl row =
     (if \<exists>r \<in> set tbl. rid r = rid row \<or> token r = token row \<or> sessionId r = sessionId row
      then Inl (PrismaError ''P2002'')
      else Inr (tbl @ [row]))"

text \<open>\<^verbatim>\<open>$transaction(callback)\<close>: Prisma's interactive transaction. The callback works on
  the transaction's view of the database; its writes are committed when it returns and
  rolled back, all of them, when it throws.\<close>

definition transaction :: "(db \<Rightarrow> 'a result \<times> db) \<Rightarrow> db \<Rightarrow> 'a result \<times> db" where
  "transaction callback d =
     (case callback d of
        (Inl err, _) \<Rightarrow> (Inl err, d)
      | (Inr v, d') \<Rightarrow> (Inr v, d'))"

section \<open>UserService\<close>

text \<open>\<^verbatim>\<open>/^[^\s@]+@[^\s@]+\.[^\s@]+$/\<close>: \<open>notSpaceOrAt\<close> is the class \<^verbatim>\<open>[^\s@]\<close>, with the
  runtime's white space.\<close>

definition notSpaceOrAt :: "env \<Rightarrow> char \<Rightarrow> bool" where
  "notSpaceOrAt e c = (\<not> whiteSpace e c \<and> c \<noteq> CHR ''@'')"

definition isValidEmail :: "env \<Rightarrow> string \<Rightarrow> bool" where
  "isValidEmail e s =
     (let local_part = takeWhile (\<lambda>c. c \<noteq> CHR ''@'') s;
          rest = drop (length local_part + 1) s
      in local_part \<noteq> [] \<and> list_all (notSpaceOrAt e) local_part
         \<and> length local_part < length s
         \<and> list_all (notSpaceOrAt e) rest
         \<and> CHR ''.'' \<in> set (butlast (tl rest)))"

definition findUserById :: "db \<Rightarrow> string \<Rightarrow> user option" where
  "findUserById d i = find (\<lambda>u. user_id u = i) (users d)"

definition findUserByEmail :: "env \<Rightarrow> db \<Rightarrow> string \<Rightarrow> user option" where
  "findUserByEmail e d em = find (\<lambda>u. email u = toLowerCase e em) (users d)"

definition validatePassword :: "string \<Rightarrow> pwhash \<Rightarrow> bool" where
  "validatePassword plainPassword hashedPassword = bcrypt_compare plainPassword hashedPassword"

record RegisterRequest =
  req_email :: string
  req_password :: string

text \<open>\<^verbatim>\<open>createUser\<close>. The user table has the key \<open>id\<close> and the unique column \<open>email\<close>; the
  email has been looked up just before, so only a repeated id can make the insert throw.\<close>

definition createUser :: "env \<Rightarrow> RegisterRequest \<Rightarrow> db \<Rightarrow> user result \<times> db" where
  "createUser e userData d =
     (if req_email userData = [] \<or> req_password userData = [] then
        (Inl (ValidationError ''Email and password are required''), d)
      else if \<not> isValidEmail e (req_email userData) then
        (Inl (ValidationError ''Invalid email format''), d)
      else if length (req_password userData) < 8 then
        (Inl (ValidationError ''Password must be at least 8 characters long''), d)
      else case find (\<lambda>u. email u = toLowerCase e (req_email userData)) (users d) of
        Some _ \<Rightarrow> (Inl (ConflictError ''User with this email already exists''), d)
      | None \<Rightarrow>
          let row = \<lparr>user_id = newUserId e, email = toLowerCase e (req_email userData),
                     password = bcrypt_hash (salt e) (req_password userData),
                     user_createdAt = now e, user_updatedAt = now e\<rparr>
          in if \<exists>u \<in> set (users d). user_id u = user_id row then (Inl (PrismaError ''P2002''), d)
             else (Inr row, d\<lparr>users := users d @ [row]\<rparr>))"

definition updatePassword :: "env \<Rightarrow> string \<Rightarrow> string \<Rightarrow> db \<Rightarrow> unit result \<times> db" where
  "updatePassword e uid newPassword d =
     (case find (\<lambda>u. user_id u = uid) (users d) of
        None \<Rightarrow> (Inl (NotFoundError ''User not found''), d)
      | Some _ \<Rightarrow>
          if length newPassword < 8 then
            (Inl (ValidationError ''Password must be at least 8 characters long''), d)
          else (Inr (), d\<lparr>users := map (\<lambda>u. if user_id u = uid
                  then u\<lparr>password := bcrypt_hash (salt e) newPassword, user_updatedAt := now e\<rparr>
                  else u) (users d)\<rparr>))"

section \<open>RefreshTokenService\<close>

text \<open>\<^verbatim>\<open>cleanupExpiredTokens(userId?)\<close>: the user filter applies when the argument is given
  and not the empty string (\<^verbatim>\<open>userId && {userId}\<close>).\<close>

definition cleanupExpiredTokens :: "int \<Rightarrow> string option \<Rightarrow> db \<Rightarrow> db" where
  "cleanupExpiredTokens t uid d =
     d\<lparr>refreshTokens := filter (\<lambda>r. \<not> (expiresAt r < t \<and>
          (case uid of None \<Rightarrow> True | Some u \<Rightarrow> u = [] \<or> userId r = u))) (refreshTokens d)\<rparr>"

definition createRefreshToken :: "env \<Rightarrow> jwt \<Rightarrow> string \<Rightarrow> int \<Rightarrow> string \<Rightarrow> int \<Rightarrow> db
    \<Rightarrow> session result \<times> db" where
  "createRefreshToken e tok uid ver sid expires d =
     (let d1 = cleanupExpiredTokens (now e) (Some uid) d;
          row = \<lparr>rid = newId e, token = tok, userId = uid, tokenVersion = ver,
                 sessionId = sid, expiresAt = expires, createdAt = now e, updatedAt = now e\<rparr>
      in case create_session (refreshTokens d1) row of
           Inl err \<Rightarrow> (Inl err, d1)
         | Inr tbl \<Rightarrow> (Inr row, d1\<lparr>refreshTokens := tbl\<rparr>))"

definition deleteAllUserRefreshTokens :: "string \<Rightarrow> db \<Rightarrow> db" where
  "deleteAllUserRefreshTokens uid d =
     d\<lparr>refreshTokens := deleteMany_userId (refreshTokens d) uid\<rparr>"

text \<open>\<^verbatim>\<open>getUserTokenVersion\<close>: the first row of the user's rows ordered by \<open>tokenVersion\<close>
  descending; \<^verbatim>\<open>latestToken?.tokenVersion || 1\<close> gives 1 for no row and for a version 0.\<close>

definition getUserTokenVersion :: "db \<Rightarrow> string \<Rightarrow> int" where
  "getUserTokenVersion d uid =
     (case rev (sort_key tokenVersion (filter (\<lambda>r. userId r = uid) (refreshTokens d))) of
        [] \<Rightarrow> 1
      | latestToken # _ \<Rightarrow> if tokenVersion latestToken = 0 then 1 else tokenVersion latestToken)"

section \<open>AuthService\<close>

text \<open>\<^verbatim>\<open>d = new Date(); d.setDate(d.getDate() + 7)\<close> on the date \<open>t\<close>: the date is taken
  to local time, the day of the month is moved on by seven (the time within the day
  stays, and days that overflow the month carry into the next), and the local time
  that results is taken back to UTC with the offset that holds there. Seven local calendar
  days are seven times 24 hours only when the two offsets agree.\<close>

definition setDate_plus7 :: "env \<Rightarrow> int \<Rightarrow> int" where
  "setDate_plus7 e t =
     (let localTime = t + localTZA e t True;
          newDate = localTime + 7 * (24 * 60 * 60 * 1000)
      in newDate - localTZA e newDate False)"

text \<open>\<^verbatim>\<open>`${Date.now()}-${Math.random().toString(36).substring(2)}`\<close>\<close>

definition freshSessionId :: "env \<Rightarrow> string" where
  "freshSessionId e = show_int (now e) @ ''-'' @ sessionRandom e"

record public_user =
  pu_id :: string
  pu_email :: string
  pu_createdAt :: int
  pu_updatedAt :: int

definition withoutPassword :: "user \<Rightarrow> public_user" where
  "withoutPassword u = \<lparr>pu_id = user_id u, pu_email = email u,
     pu_createdAt = user_createdAt u, pu_updatedAt = user_updatedAt u\<rparr>"

record auth_reply =
  reply_user :: public_user
  reply_tokens :: AuthTokens

definition register :: "config \<Rightarrow> env \<Rightarrow> RegisterRequest \<Rightarrow> db \<Rightarrow> auth_reply result \<times> db" where
  "register cfg e userData d =
     (case createUser e userData d of
        (Inl err, d1) \<Rightarrow> (Inl err, d1)
      | (Inr u, d1) \<Rightarrow>
          let tokens = generateTokens cfg e (user_id u) (email u) 1;
              refreshTokenExpiry = setDate_plus7 e (now e);
              sid = freshSessionId e
          in (case createRefreshToken e (refreshToken tokens) (user_id u) 1 sid refreshTokenExpiry d1 of
                (Inl err, d2) \<Rightarrow> (Inl err, d2)
              | (Inr _, d2) \<Rightarrow> (Inr \<lparr>reply_user = withoutPassword u, reply_tokens = tokens\<rparr>, d2)))"

record LoginRequest =
  cred_email :: string
  cred_password :: string

definition login :: "config \<Rightarrow> env \<Rightarrow> LoginRequest \<Rightarrow> db \<Rightarrow> auth_reply result \<times> db" where
  "login cfg e credentials d =
     (if cred_email credentials = [] \<or> cred_password credentials = [] then
        (Inl (ValidationError ''Email and password are required''), d)
      else (case findUserByEmail e d (cred_email credentials) of
        None \<Rightarrow> (Inl (AuthenticationError ''Invalid email or password''), d)
      | Some u \<Rightarrow>
          if \<not> validatePassword (cred_password credentials) (password u) then
            (Inl (AuthenticationError ''Invalid email or password''), d)
          else
            let ver = getUserTokenVersion d (user_id u);
                tokens = generateTokens cfg e (user_id u) (email u) ver;
                refreshTokenExpiry = setDate_plus7 e (now e);
                loginSessionId = freshSessionId e
            in (case createRefreshToken e (refreshToken tokens) (user_id u) ver loginSessionId
                       refreshTokenExpiry d of
                  (Inl err, d2) \<Rightarrow> (Inl err, d2)
                | (Inr _, d2) \<Rightarrow>
                    (Inr \<lparr>reply_user = withoutPassword u, reply_tokens = tokens\<rparr>, d2))))"

text \<open>The callback that \<^verbatim>\<open>refreshToken\<close> hands to \<^verbatim>\<open>$transaction\<close>, on the transaction's
  view of the database.\<close>

definition refreshToken_body :: "config \<Rightarrow> env \<Rightarrow> jwt \<Rightarrow> db \<Rightarrow> AuthTokens result \<times> db" where
  "refreshToken_body cfg e tok d =
     (case findUnique_token (refreshTokens d) tok of
        None \<Rightarrow> (Inl (AuthenticationError ''Invalid or expired refresh token''), d)
      | Some storedToken \<Rightarrow>
          if expiresAt storedToken < now e then
            (case delete_id (refreshTokens d) (rid storedToken) of
               Inl err \<Rightarrow> (Inl err, d)
             | Inr tbl \<Rightarrow>
                 (Inl (AuthenticationError ''Refresh token has expired''), d\<lparr>refreshTokens := tbl\<rparr>))
          else (case verifyRefreshToken cfg (now e) tok of
            Inl err \<Rightarrow> (Inl err, d)
          | Inr payload \<Rightarrow>
              (case findUserById d (p_userId payload) of
                 None \<Rightarrow> (Inl (AuthenticationError ''User not found''), d)
               | Some u \<Rightarrow>
                   if p_tokenVersion payload \<noteq> Some (tokenVersion storedToken) then
                     (Inl (AuthenticationError ''Invalid refresh token version''), d)
                   else
                     let newTokenVersion = tokenVersion storedToken + 1;
                         tokens = generateTokens cfg e (user_id u) (email u) newTokenVersion;
                         d1 = d\<lparr>refreshTokens := deleteMany_userId (refreshTokens d) (user_id u)\<rparr>;
                         newRefreshTokenExpiry = setDate_plus7 e (now e);
                         sid = freshSessionId e;
                         row = \<lparr>rid = newId e, token = refreshToken tokens, userId = user_id u,
                                tokenVersion = newTokenVersion, sessionId = sid,
                                expiresAt = newRefreshTokenExpiry,
                                createdAt = now e, updatedAt = now e\<rparr>
                     in (case create_session (refreshTokens d1) row of
                           Inl err \<Rightarrow> (Inl err, d1)
                         | Inr tbl \<Rightarrow> (Inr tokens, d1\<lparr>refreshTokens := tbl\<rparr>)))))"

text \<open>\<^verbatim>\<open>AuthService.refreshToken\<close> (the field \<open>refreshToken\<close> of a token pair has the name).\<close>

definition refreshToken_op :: "config \<Rightarrow> env \<Rightarrow> jwt \<Rightarrow> db \<Rightarrow> AuthTokens result \<times> db" where
  "refreshToken_op cfg e tok d = transaction (refreshToken_body cfg e tok) d"

definition logout :: "string \<Rightarrow> db \<Rightarrow> db" where
  "logout uid d = deleteAllUserRefreshTokens uid d"

definition logoutAllDevices :: "string \<Rightarrow> db \<Rightarrow> db" where
  "logoutAllDevices uid d = logout uid d"

record identity =
  id_userId :: string
  id_email :: "string option"

text \<open>The \<^verbatim>\<open>try\<close> block of \<^verbatim>\<open>validateAccessToken\<close>, then the method with its \<^verbatim>\<open>catch\<close>.\<close>

definition validateAccessToken_try :: "config \<Rightarrow> int \<Rightarrow> db \<Rightarrow> jwt \<Rightarrow> identity result" where
  "validateAccessToken_try cfg t d tok =
     (case verifyAccessToken cfg t tok of
        Inl err \<Rightarrow> Inl err
      | Inr payload \<Rightarrow>
          (case findUserById d (p_userId payload) of
             None \<Rightarrow> Inl (AuthenticationError ''User not found'')
           | Some _ \<Rightarrow> Inr \<lparr>id_userId = p_userId payload, id_email = p_email payload\<rparr>))"

definition validateAccessToken :: "config \<Rightarrow> int \<Rightarrow> db \<Rightarrow> jwt \<Rightarrow> identity result" where
  "validateAccessToken cfg t d tok =
     (case validateAccessToken_try cfg t d tok of
        Inl _ \<Rightarrow> Inl (AuthenticationError ''Invalid or expired access token'')
      | Inr v \<Rightarrow> Inr v)"

definition changePassword :: "env \<Rightarrow> string \<Rightarrow> string \<Rightarrow> string \<Rightarrow> db \<Rightarrow> unit result \<times> db" where
  "changePassword e uid currentPassword newPassword d =
     (case findUserById d uid of
        None \<Rightarrow> (Inl (AuthenticationError ''User not found''), d)
      | Some u \<Rightarrow>
          if \<not> validatePassword currentPassword (password u) then
            (Inl (AuthenticationError ''Current password is incorrect''), d)
          else (case updatePassword e uid newPassword d of
            (Inl err, d1) \<Rightarrow> (Inl err, d1)
          | (Inr _, d1) \<Rightarrow> (Inr (), logout uid d1)))"

section \<open>The authentication middleware\<close>

text \<open>The \<^verbatim>\<open>Authorization\<close> header is \<^verbatim>\<open>'Bearer '\<close> followed by a token, or something else;
  the empty string is the token \<open>NotJwt []\<close>, which \<^verbatim>\<open>!token\<close> takes for no token.\<close>

datatype auth_header = Bearer jwt | OtherHeader string

record request =
  authorization :: "auth_header option"
  cookies_accessToken :: "jwt option"

definition present :: "jwt option \<Rightarrow> jwt option" where
  "present tk = (if tk = Some (NotJwt []) then None else tk)"

definition authenticate :: "config \<Rightarrow> int \<Rightarrow> db \<Rightarrow> request \<Rightarrow> identity result" where
  "authenticate cfg t d req =
     (let header_token = (case authorization req of Some (Bearer tk) \<Rightarrow> Some tk | _ \<Rightarrow> None);
          tk = (case present header_token of None \<Rightarrow> cookies_accessToken req | Some x \<Rightarrow> Some x);
          attempt = (case present tk of
                       None \<Rightarrow> Inl (AuthenticationError ''Access token required'')
                     | Some x \<Rightarrow> validateAccessToken cfg t d x)
      in case attempt of
           Inl _ \<Rightarrow> Inl (AuthenticationError ''Invalid or expired access token'')
         | Inr u \<Rightarrow> Inr u)"

section \<open>Removing a user\<close>

text \<open>\<^verbatim>\<open>UserService.deleteUser\<close>; the refresh tokens of the user go with the user row
  (\<^verbatim>\<open>// Delete user (cascade will handle refresh tokens)\<close>).\<close>

definition deleteUser :: "string \<Rightarrow> db \<Rightarrow> unit result \<times> db" where
  "deleteUser uid d =
     (case find (\<lambda>u. user_id u = uid) (users d) of
        None \<Rightarrow> (Inl (NotFoundError ''User not found''), d)
      | Some _ \<Rightarrow> (Inr (), d\<lparr>users := filter (\<lambda>u. user_id u \<noteq> uid) (users d),
                              refreshTokens := filter (\<lambda>r. userId r \<noteq> uid) (refreshTokens d)\<rparr>))"

section \<open>Reachable stores and what the session rows promise\<close>

text \<open>The stores the service can be in: it starts with no session row (the seed script
  empties the table and creates users only) and moves by its operations, each called with
  any arguments in any environment.\<close>

inductive reachable :: "config \<Rightarrow> db \<Rightarrow> bool" for cfg :: config where
  start: "refreshTokens d = [] \<Longrightarrow> reachable cfg d"
| by_register: "reachable cfg d \<Longrightarrow> reachable cfg (snd (register cfg e userData d))"
| by_login: "reachable cfg d \<Longrightarrow> reachable cfg (snd (login cfg e credentials d))"
| by_refresh: "reachable cfg d \<Longrightarrow> reachable cfg (snd (refreshToken_op cfg e tok d))"
| by_logout: "reachable cfg d \<Longrightarrow> reachable cfg (logout uid d)"
| by_changePassword: "reachable cfg d \<Longrightarrow>
    reachable cfg (snd (changePassword e uid currentPassword newPassword d))"
| by_deleteUser: "reachable cfg d \<Longrightarrow> reachable cfg (snd (deleteUser uid d))"

text \<open>A session row agrees with its token when the token decodes to claims that name the
  row's user and the row's version.\<close>

definition row_agrees :: "session \<Rightarrow> bool" where
  "row_agrees r =
     (case decodeToken (token r) of
        None \<Rightarrow> False
      | Some c \<Rightarrow> p_userId c = userId r \<and> p_tokenVersion c = Some (tokenVersion r))"

definition rows_agree :: "db \<Rightarrow> bool" where
  "rows_agree d = list_all row_agrees (refreshTokens d)"


subsection \<open>The specification's reading of \<open>currentVersion\<close>\<close>

text \<open>In the specification's words: the maximum \<open>tokenVersion\<close> among the user's live
  rows (a row is expired when \<open>expiresAt \<le> now\<close>), and 1 when there is none.\<close>

definition live_rows :: "int \<Rightarrow> db \<Rightarrow> string \<Rightarrow> session list" where
  "live_rows t d uid = filter (\<lambda>r. userId r = uid \<and> \<not> expiresAt r \<le> t) (refreshTokens d)"

definition currentVersion_spec :: "int \<Rightarrow> db \<Rightarrow> string \<Rightarrow> int" where
  "currentVersion_spec t d uid =
     (case live_rows t d uid of
        [] \<Rightarrow> 1
      | r # rs \<Rightarrow> fold max (map tokenVersion rs) (tokenVersion r))"

section \<open>Sample data\<close>

definition cfg0 :: config where
  "cfg0 = \<lparr>JWT_SECRET = ''access-secret'', JWT_REFRESH_SECRET = ''refresh-secret'',
           JWT_EXPIRES_IN = 900, JWT_REFRESH_EXPIRES_IN = 604800\<rparr>"

text \<open>The samples run in UTC, and their strings are ASCII, where lower-casing and white
  space are the following.\<close>

definition ascii_toLowerCase :: "string \<Rightarrow> string" where
  "ascii_toLowerCase s = map (\<lambda>c. if (65::nat) \<le> of_char c \<and> of_char c \<le> (90::nat)
                                    then char_of (of_char c + (32::nat)) else c) s"

definition ascii_whiteSpace :: "char \<Rightarrow> bool" where
  "ascii_whiteSpace c = (c \<in> set [CHR '' '', CHR 0x09, CHR 0x0A, CHR 0x0B, CHR 0x0C, CHR 0x0D])"

definition env_at :: "int \<Rightarrow> string \<Rightarrow> env" where
  "env_at t x = \<lparr>now = t, random = x, nanoTime = x, sessionRandom = x, newId = x,
                newUserId = x, salt = x, localTZA = (\<lambda>_ _. 0),
                toLowerCase = ascii_toLowerCase, whiteSpace = ascii_whiteSpace\<rparr>"

definition db0 :: db where
  "db0 = \<lparr>users = [], refreshTokens = []\<rparr>"

definition req0 :: RegisterRequest where
  "req0 = \<lparr>req_email = ''u1@ex.org'', req_password = ''password1''\<rparr>"

text \<open>The store after user \<open>u1\<close> has registered at time 1000, and the pair issued.\<close>

definition db1 :: db where
  "db1 = snd (register cfg0 (env_at 1000 ''a'') req0 db0)"

definition A1 :: jwt where
  "A1 = accessToken (generateTokens cfg0 (env_at 1000 ''a'') ''a'' ''u1@ex.org'' 1)"

definition R1 :: jwt where
  "R1 = refreshToken (generateTokens cfg0 (env_at 1000 ''a'') ''a'' ''u1@ex.org'' 1)"

text \<open>The store after \<open>R1\<close> has been rotated at time 2000, and the store after user
  \<open>u1\<close> has been removed instead.\<close>

definition db2 :: db where
  "db2 = snd (refreshToken_op cfg0 (env_at 2000 ''b'') R1 db1)"

definition db_gone :: db where
  "db_gone = snd (deleteUser ''a'' db1)"

text \<open>The session row that registration stored for \<open>R1\<close>.\<close>

definition row1 :: session where
  "row1 = \<lparr>rid = ''a'', token = R1, userId = ''a'', tokenVersion = 1, sessionId = ''1000-a'',
           expiresAt = 604801000, createdAt = 1000, updatedAt = 1000\<rparr>"

text \<open>A token with the claims of \<open>A1\<close>, signed with another secret.\<close>

definition A_foreign :: jwt where
  "A_foreign = (case A1 of Jwt _ c \<Rightarrow> Jwt ''some-other-secret'' c | NotJwt s \<Rightarrow> NotJwt s)"

text \<open>The user row of \<open>u1\<close> and the claims of \<open>R1\<close>.\<close>

definition user1 :: user where
  "user1 = \<lparr>user_id = ''a'', email = ''u1@ex.org'', password = Bcrypt ''a'' ''password1'',
            user_createdAt = 1000, user_updatedAt = 1000\<rparr>"

definition claimsR1 :: claims where
  "claimsR1 = \<lparr>p_userId = ''a'', p_email = None, p_tokenVersion = Some 1,
               p_jti = Some ''refresh-1000-a-a'', p_iat = 1, p_exp = 604801,
               p_iss = ''auth-api'', p_aud = ''auth-client''\<rparr>"

text \<open>The claims of \<open>A1\<close>, and a request that carries \<open>A1\<close> in its header.\<close>

definition claimsA1 :: claims where
  "claimsA1 = \<lparr>p_userId = ''a'', p_email = Some ''u1@ex.org'', p_tokenVersion = None,
               p_jti = Some ''access-1000-a-a'', p_iat = 1, p_exp = 901,
               p_iss = ''auth-api'', p_aud = ''auth-client''\<rparr>"

definition reqA1 :: request where
  "reqA1 = \<lparr>authorization = Some (Bearer A1), cookies_accessToken = None\<rparr>"

text \<open>A configuration whose refresh tokens live 30 days, and the store and token after
  \<open>u1\<close> has registered under it.\<close>

definition cfg30 :: config where
  "cfg30 = \<lparr>JWT_SECRET = ''access-secret'', JWT_REFRESH_SECRET = ''refresh-secret'',
            JWT_EXPIRES_IN = 900, JWT_REFRESH_EXPIRES_IN = 2592000\<rparr>"

definition db1_30 :: db where
  "db1_30 = snd (register cfg30 (env_at 1000 ''a'') req0 db0)"

definition R1_30 :: jwt where
  "R1_30 = refreshToken (generateTokens cfg30 (env_at 1000 ''a'') ''a'' ''u1@ex.org'' 1)"

text \<open>A runtime in New York around 8 March 2026: the offset from UTC is -5 hours before
  2026-03-08 07:00 UTC (1772953200000) and -4 hours from then on; local times before 03:00
  of that day are read with -5 hours. With it, the store and token after \<open>u1\<close> has
  registered on 5 March at 08:40 UTC.\<close>

definition ny_localTZA :: "int \<Rightarrow> bool \<Rightarrow> int" where
  "ny_localTZA t isUTC =
     (if isUTC then (if t < 1772953200000 then - 18000000 else - 14400000)
      else (if t < 1772938800000 then - 18000000 else - 14400000))"

definition env_ny :: "int \<Rightarrow> string \<Rightarrow> env" where
  "env_ny t x = (env_at t x)\<lparr>localTZA := ny_localTZA\<rparr>"

definition db1_ny :: db where
  "db1_ny = snd (register cfg0 (env_ny 1772700000000 ''a'') req0 db0)"

definition R1_ny :: jwt where
  "R1_ny = refreshToken (generateTokens cfg0 (env_ny 1772700000000 ''a'') ''a'' ''u1@ex.org'' 1)"

text \<open>The store after a second user has registered at time 2000, and an environment at
  time 2000 that draws the random string of that registration again.\<close>

definition req_u2 :: RegisterRequest where
  "req_u2 = \<lparr>req_email = ''u2@ex.org'', req_password = ''password2''\<rparr>"

definition db_two :: db where
  "db_two = snd (register cfg0 (env_at 2000 ''b'') req_u2 db1)"

definition env_again :: env where
  "env_again = (env_at 2000 ''c'')\<lparr>sessionRandom := ''b''\<rparr>"

section \<open>Evaluating the sample data\<close>

lemma db1_eval:
  "db1 = \<lparr>users = [\<lparr>user_id = ''a'', email = ''u1@ex.org'',
                      password = Bcrypt ''a'' ''password1'', user_createdAt = 1000,
                      user_updatedAt = 1000\<rparr>],
           refreshTokens = [\<lparr>rid = ''a'', token = R1, userId = ''a'', tokenVersion = 1,
                      sessionId = ''1000-a'', expiresAt = 604801000, createdAt = 1000,
                      updatedAt = 1000\<rparr>]\<rparr>"
  by code_simp

lemma db_gone_eval: "db_gone = \<lparr>users = [], refreshTokens = []\<rparr>"
  by code_simp

lemma row1_lookup: "findUnique_token (refreshTokens db1) R1 = Some row1"
  by code_simp

lemma db1_agree: "rows_agree db1"
  by code_simp

lemma row1_live: "\<not> expiresAt row1 < now (env_at 2000 ''b'')"
  by code_simp

lemma R1_valid: "verifyRefreshToken cfg0 (now (env_at 2000 ''b'')) R1 = Inr claimsR1"
  by code_simp

lemma u1_found: "findUserById db1 (p_userId claimsR1) = Some user1"
  by code_simp

lemma R1_version: "p_tokenVersion claimsR1 = Some (tokenVersion row1)"
  by code_simp


lemma row1_expired: "expiresAt row1 < now (env_at 700000000 ''b'')"
  by code_simp

lemma A1_eval: "A1 = Jwt ''access-secret'' claimsA1"
  by code_simp

lemma A_foreign_eval: "A_foreign = Jwt ''some-other-secret'' claimsA1"
  by code_simp

lemma A1_verifies: "verifyAccessToken cfg0 2000 A1 = Inr claimsA1"
  by code_simp

lemma u1_gone: "findUserById db_gone (p_userId claimsA1) = None"
  by code_simp

text \<open>The definitions that an evaluation with large clock values unfolds.\<close>

lemmas eval_defs = register_def createUser_def cfg0_def env_at_def env_ny_def ny_localTZA_def
  req0_def db0_def isValidEmail_def notSpaceOrAt_def ascii_whiteSpace_def ascii_toLowerCase_def
  generateTokens_def generateAccessToken_def generateRefreshToken_def jwt_sign_def
  createRefreshToken_def cleanupExpiredTokens_def create_session_def setDate_plus7_def
  freshSessionId_def show_int_def bcrypt_hash_def withoutPassword_def Let_def
  refreshToken_op_def transaction_def refreshToken_body_def findUnique_token_def
  verifyRefreshToken_def jwt_verify_def findUserById_def deleteMany_userId_def delete_id_def

lemma rotate30_succeeds:
  "\<not> isl (fst (refreshToken_op cfg30 (env_at 2000 ''b'') R1_30 db1_30))"
  by code_simp

lemma rotate30_expiresAt:
  "map expiresAt (refreshTokens (snd (refreshToken_op cfg30 (env_at 2000 ''b'') R1_30 db1_30)))
     = [604802000]"
  by code_simp

lemma rotate30_ttl: "now (env_at 2000 ''b'') + 1000 * JWT_REFRESH_EXPIRES_IN cfg30 = 2592002000"
  by code_simp

lemma rotate_ny_succeeds:
  "\<not> isl (fst (refreshToken_op cfg0 (env_ny 1772712000000 ''b'') R1_ny db1_ny))"
  by (simp add: db1_ny_def R1_ny_def eval_defs)

lemma rotate_ny_expiresAt:
  "map expiresAt (refreshTokens (snd (refreshToken_op cfg0 (env_ny 1772712000000 ''b'') R1_ny
     db1_ny))) = [1773313200000]"
  by (simp add: db1_ny_def R1_ny_def eval_defs)

lemma rotate_ny_ttl:
  "now (env_ny 1772712000000 ''b'') + 7 * 24 * 60 * 60 * 1000 = 1773316800000"
  by (simp add: eval_defs)

lemma two_lookup: "findUnique_token (refreshTokens db_two) R1 = Some row1"
  by code_simp

lemma two_live: "\<not> expiresAt row1 < now env_again"
  by code_simp

lemma two_valid: "verifyRefreshToken cfg0 (now env_again) R1 = Inr claimsR1"
  by code_simp

lemma two_user: "findUserById db_two (p_userId claimsR1) = Some user1"
  by code_simp

lemma two_refused: "refreshToken_op cfg0 env_again R1 db_two = (Inl (PrismaError ''P2002''), db_two)"
  by code_simp

lemma both_first:
  "fst (refreshToken_body cfg0 (env_at 2000 ''b'') R1 db1) =
     Inr (generateTokens cfg0 (env_at 2000 ''b'') ''a'' ''u1@ex.org'' 2)"
  by code_simp

lemma both_second:
  "fst (refreshToken_body cfg0 (env_at 2000 ''c'') R1 db1) =
     Inr (generateTokens cfg0 (env_at 2000 ''c'') ''a'' ''u1@ex.org'' 2)"
  by code_simp

lemma both_differ:
  "refreshToken (generateTokens cfg0 (env_at 2000 ''b'') ''a'' ''u1@ex.org'' 2)
     \<noteq> refreshToken (generateTokens cfg0 (env_at 2000 ''c'') ''a'' ''u1@ex.org'' 2)"
  by code_simp

lemma both_first_valid:
  "\<not> isl (verifyRefreshToken cfg0 3000
     (refreshToken (generateTokens cfg0 (env_at 2000 ''b'') ''a'' ''u1@ex.org'' 2)))"
  by code_simp

lemma both_second_valid:
  "\<not> isl (verifyRefreshToken cfg0 3000
     (refreshToken (generateTokens cfg0 (env_at 2000 ''c'') ''a'' ''u1@ex.org'' 2)))"
  by code_simp

lemma both_first_row:
  "map rid (refreshTokens (snd (refreshToken_body cfg0 (env_at 2000 ''b'') R1 db1))) = [''b'']
   \<and> map sessionId (refreshTokens (snd (refreshToken_body cfg0 (env_at 2000 ''b'') R1 db1)))
        = [''2000-b'']"
  by code_simp

lemma both_second_row:
  "map rid (refreshTokens (snd (refreshToken_body cfg0 (env_at 2000 ''c'') R1 db1))) = [''c'']
   \<and> map sessionId (refreshTokens (snd (refreshToken_body cfg0 (env_at 2000 ''c'') R1 db1)))
        = [''2000-c'']"
  by code_simp

lemma reachable_db2: "reachable cfg0 db2"
proof -
  have "reachable cfg0 db0" by (rule reachable.start) (simp add: db0_def)
  then have "reachable cfg0 db1" unfolding db1_def by (rule reachable.by_register)
  then show ?thesis unfolding db2_def by (rule reachable.by_refresh)
qed

section \<open>Facts about sorted lists\<close>

lemma sorted_le_last: "sorted xs \<Longrightarrow> x \<in> set xs \<Longrightarrow> x \<le> last (xs :: int list)"
  by (induction xs) auto

lemma last_sorted_Max:
  assumes "xs \<noteq> []" and "sorted (map f xs)"
  shows "(f (last xs) :: int) = Max (f ` set xs)"
proof -
  have "\<forall>y \<in> set (map f xs). y \<le> last (map f xs)"
    using assms(2) sorted_le_last by blast
  then have "\<forall>y \<in> f ` set xs. y \<le> f (last xs)"
    using assms(1) by (simp add: last_map)
  moreover have "f (last xs) \<in> f ` set xs" using assms(1) by simp
  ultimately have "Max (f ` set xs) = f (last xs)"
    by (intro Max_eqI) auto
  then show ?thesis by simp
qed

section \<open>Every operation keeps the session rows in agreement with their tokens\<close>

lemma rows_agree_filter:
  "rows_agree d \<Longrightarrow> rows_agree (d\<lparr>refreshTokens := filter P (refreshTokens d)\<rparr>)"
  by (simp add: rows_agree_def list_all_iff)

lemma rows_agree_start: "refreshTokens d = [] \<Longrightarrow> rows_agree d"
  by (simp add: rows_agree_def)

lemma createUser_sessions:
  "refreshTokens (snd (createUser e userData d)) = refreshTokens d"
  by (simp add: createUser_def Let_def split: option.splits)

lemma new_row_agrees:
  "row_agrees \<lparr>rid = i, token = refreshToken (generateTokens cfg e uid em ver),
      userId = uid, tokenVersion = ver, sessionId = sid, expiresAt = ex, createdAt = c,
      updatedAt = u\<rparr>"
  by (simp add: row_agrees_def generateTokens_def generateRefreshToken_def jwt_sign_def
      decodeToken_def jwt_decode_def)

lemma createRefreshToken_agree:
  assumes "rows_agree d"
      and "createRefreshToken e (refreshToken (generateTokens cfg e' uid em ver))
             uid ver sid ex d = (res, d2)"
  shows "rows_agree d2"
proof -
  have "rows_agree (cleanupExpiredTokens (now e) (Some uid) d)"
    unfolding cleanupExpiredTokens_def using assms(1) by (rule rows_agree_filter)
  then show ?thesis
    using assms(2) new_row_agrees [of "newId e" cfg e' uid em ver sid ex "now e" "now e"]
    by (auto simp: createRefreshToken_def create_session_def Let_def rows_agree_def
        split: if_splits)
qed

lemma register_agree: "rows_agree d \<Longrightarrow> rows_agree (snd (register cfg e userData d))"
proof -
  assume a: "rows_agree d"
  obtain res d1 where cu: "createUser e userData d = (res, d1)"
    by (cases "createUser e userData d")
  have d1: "rows_agree d1"
    using a createUser_sessions [of e userData d] cu by (simp add: rows_agree_def)
  show ?thesis
  proof (cases res)
    case (Inl err)
    then show ?thesis using cu d1 by (simp add: register_def)
  next
    case (Inr u)
    then show ?thesis using cu createRefreshToken_agree [OF d1]
      by (auto simp: register_def Let_def split: prod.splits sum.splits)
  qed
qed

lemma login_agree: "rows_agree d \<Longrightarrow> rows_agree (snd (login cfg e credentials d))"
  using createRefreshToken_agree [of d]
  by (auto simp: login_def Let_def split: prod.splits sum.splits option.splits)

lemma refreshToken_body_agree:
  "rows_agree d \<Longrightarrow> rows_agree (snd (refreshToken_body cfg e tok d))"
proof -
  assume a: "rows_agree d"
  have f: "\<And>P. list_all row_agrees (filter P (refreshTokens d))"
    using a by (simp add: rows_agree_def list_all_iff)
  show ?thesis using a f new_row_agrees
    by (auto simp: refreshToken_body_def Let_def rows_agree_def delete_id_def
        deleteMany_userId_def create_session_def split: option.splits sum.splits)
qed

lemma refreshToken_op_agree:
  "rows_agree d \<Longrightarrow> rows_agree (snd (refreshToken_op cfg e tok d))"
  using refreshToken_body_agree [of d cfg e tok]
  by (auto simp: refreshToken_op_def transaction_def split: prod.splits sum.splits)

lemma logout_agree: "rows_agree d \<Longrightarrow> rows_agree (logout uid d)"
  by (simp add: logout_def deleteAllUserRefreshTokens_def deleteMany_userId_def rows_agree_filter)

lemma updatePassword_sessions:
  "refreshTokens (snd (updatePassword e uid pw d)) = refreshTokens d"
  by (simp add: updatePassword_def split: option.splits)

lemma changePassword_agree:
  "rows_agree d \<Longrightarrow> rows_agree (snd (changePassword e uid cur new d))"
proof -
  assume a: "rows_agree d"
  have "rows_agree (snd (updatePassword e uid new d))"
    using a updatePassword_sessions [of e uid new d] by (simp add: rows_agree_def)
  then show ?thesis using a
    by (auto simp: changePassword_def logout_agree split: option.splits prod.splits sum.splits)
qed

lemma deleteUser_agree: "rows_agree d \<Longrightarrow> rows_agree (snd (deleteUser uid d))"
  by (auto simp: deleteUser_def rows_agree_def list_all_iff split: option.splits)

lemma reachable_rows_agree: "reachable cfg d \<Longrightarrow> rows_agree d"
  by (induction rule: reachable.induct)
     (simp_all add: rows_agree_start register_agree login_agree refreshToken_op_agree
        logout_agree changePassword_agree deleteUser_agree)

section \<open>The rotation step\<close>

lemma findUnique_token_Some:
  "findUnique_token tbl t = Some r \<Longrightarrow> r \<in> set tbl \<and> token r = t"
  by (auto simp: findUnique_token_def find_Some_iff)

lemma findUserById_Some: "findUserById d i = Some u \<Longrightarrow> user_id u = i"
  by (auto simp: findUserById_def find_Some_iff)

lemma verifyRefreshToken_decodes:
  "verifyRefreshToken cfg t tok = Inr payload \<Longrightarrow> decodeToken tok = Some payload"
  by (auto simp: verifyRefreshToken_def jwt_verify_def decodeToken_def jwt_decode_def
      split: jwt.splits sum.splits if_splits)

lemma rows_agree_row: "rows_agree d \<Longrightarrow> r \<in> set (refreshTokens d) \<Longrightarrow> row_agrees r"
  by (simp add: rows_agree_def list_all_iff)

lemma create_session_fresh:
  assumes "\<forall>r \<in> set tbl. rid r \<noteq> rid row \<and> token r \<noteq> token row \<and> sessionId r \<noteq> sessionId row"
  shows "create_session tbl row = Inr (tbl @ [row])"
  using assms by (auto simp: create_session_def)

lemma refreshToken_body_checks_pass:
  assumes agree: "rows_agree d"
      and lookup: "findUnique_token (refreshTokens d) tok = Some storedToken"
      and live: "\<not> expiresAt storedToken < now e"
      and sig: "verifyRefreshToken cfg (now e) tok = Inr payload"
      and usr: "findUserById d (p_userId payload) = Some u"
  defines "others \<equiv> filter (\<lambda>r. userId r \<noteq> userId storedToken) (refreshTokens d)"
      and "tokens \<equiv> generateTokens cfg e (userId storedToken) (email u) (tokenVersion storedToken + 1)"
  shows "user_id u = userId storedToken"
    and "p_tokenVersion payload = Some (tokenVersion storedToken)"
    and "list_all (\<lambda>r. token r \<noteq> refreshToken tokens) others"
    and "refreshToken_body cfg e tok d =
      (if list_ex (\<lambda>r. rid r = newId e \<or> sessionId r = freshSessionId e) others
       then (Inl (PrismaError ''P2002''), d\<lparr>refreshTokens := others\<rparr>)
       else (Inr tokens,
         d\<lparr>refreshTokens := others @
            [\<lparr>rid = newId e, token = refreshToken tokens,
              userId = userId storedToken, tokenVersion = tokenVersion storedToken + 1,
              sessionId = freshSessionId e, expiresAt = setDate_plus7 e (now e),
              createdAt = now e, updatedAt = now e\<rparr>]\<rparr>))"
proof -
  have st: "storedToken \<in> set (refreshTokens d)" "token storedToken = tok"
    using findUnique_token_Some [OF lookup] by simp_all
  have dec: "decodeToken tok = Some payload" using sig by (rule verifyRefreshToken_decodes)
  have "row_agrees storedToken" using agree st(1) by (rule rows_agree_row)
  then have pu: "p_userId payload = userId storedToken"
    and pv: "p_tokenVersion payload = Some (tokenVersion storedToken)"
    using dec st(2) by (simp_all add: row_agrees_def)
  show uid: "user_id u = userId storedToken" using findUserById_Some [OF usr] pu by simp
  show "p_tokenVersion payload = Some (tokenVersion storedToken)" by (rule pv)
  let ?row = "\<lparr>rid = newId e, token = refreshToken tokens, userId = userId storedToken,
      tokenVersion = tokenVersion storedToken + 1, sessionId = freshSessionId e,
      expiresAt = setDate_plus7 e (now e), createdAt = now e, updatedAt = now e\<rparr>"
  have rowa: "row_agrees ?row" unfolding tokens_def by (rule new_row_agrees)
  have tok_fresh: "token r \<noteq> refreshToken tokens" if "r \<in> set others" for r
  proof -
    from that have rin: "r \<in> set (refreshTokens d)" and ru: "userId r \<noteq> userId storedToken"
      by (simp_all add: others_def)
    have "row_agrees r" using agree rin by (rule rows_agree_row)
    then show ?thesis using rowa ru by (auto simp: row_agrees_def split: option.splits)
  qed
  then show "list_all (\<lambda>r. token r \<noteq> refreshToken tokens) others"
    by (simp add: list_all_iff)
  have cr: "create_session others ?row =
      (if list_ex (\<lambda>r. rid r = newId e \<or> sessionId r = freshSessionId e) others
       then Inl (PrismaError ''P2002'') else Inr (others @ [?row]))"
    using tok_fresh by (auto simp: create_session_def list_ex_iff)
  have "refreshToken_body cfg e tok d =
      (case create_session others ?row of
         Inl err \<Rightarrow> (Inl err, d\<lparr>refreshTokens := others\<rparr>)
       | Inr tbl \<Rightarrow> (Inr tokens, d\<lparr>refreshTokens := tbl\<rparr>))"
    unfolding refreshToken_body_def others_def tokens_def
    using lookup live sig usr pv uid
    by (simp add: Let_def deleteMany_userId_def split: sum.splits)
  then show "refreshToken_body cfg e tok d =
      (if list_ex (\<lambda>r. rid r = newId e \<or> sessionId r = freshSessionId e) others
       then (Inl (PrismaError ''P2002''), d\<lparr>refreshTokens := others\<rparr>)
       else (Inr tokens, d\<lparr>refreshTokens := others @ [?row]\<rparr>))"
    by (simp add: cr)
qed




lemma expired_body:
  assumes "findUnique_token (refreshTokens d) tok = Some storedToken"
      and "expiresAt storedToken < now e"
  shows "refreshToken_body cfg e tok d =
     (Inl (AuthenticationError ''Refresh token has expired''),
      d\<lparr>refreshTokens := filter (\<lambda>r. rid r \<noteq> rid storedToken) (refreshTokens d)\<rparr>)"
proof -
  have "storedToken \<in> set (refreshTokens d)"
    using findUnique_token_Some [OF assms(1)] by simp
  then have "delete_id (refreshTokens d) (rid storedToken) =
      Inr (filter (\<lambda>r. rid r \<noteq> rid storedToken) (refreshTokens d))"
    by (auto simp: delete_id_def)
  then show ?thesis using assms by (simp add: refreshToken_body_def)
qed

lemma expired_op:
  assumes "findUnique_token (refreshTokens d) tok = Some storedToken"
      and "expiresAt storedToken < now e"
  shows "refreshToken_op cfg e tok d = (Inl (AuthenticationError ''Refresh token has expired''), d)"
  using expired_body [OF assms] by (simp add: refreshToken_op_def transaction_def)

section \<open>The claims\<close>

text \<open>
  C1, as amended. In a store whose rows agree with their tokens (every reachable store
  does, lemma \<open>reachable_rows_agree\<close>), when the presented token has a stored row, the row
  is not expired, the token verifies, its user exists and its version is the row's, the
  pair is issued at version \<open>tokenVersion + 1\<close> and the call goes one of two ways. When the
  generated id or session id repeats that of a row of another user, the insert is refused,
  the call fails and the store is what it was. Otherwise the call returns the pair, every
  row of the row's user is gone, and exactly one row is new: it carries the new refresh
  token, the new version, the session id generated in this call, which no other stored
  row has, and an \<open>expiresAt\<close> seven local calendar days after \<open>now\<close>, whatever the configured
  lifetime of refresh tokens is; that is \<open>now\<close> plus seven times 24 hours when the local
  offset from UTC is the same at both ends.
\<close>

theorem C1_rotate_step:
  assumes "rows_agree d"
      and "findUnique_token (refreshTokens d) tok = Some storedToken"
      and "\<not> expiresAt storedToken < now e"
      and "verifyRefreshToken cfg (now e) tok = Inr payload"
      and "findUserById d (p_userId payload) = Some u"
      and "p_tokenVersion payload = Some (tokenVersion storedToken)"
  defines "others \<equiv> filter (\<lambda>r. userId r \<noteq> userId storedToken) (refreshTokens d)"
      and "tokens \<equiv> generateTokens cfg e (userId storedToken) (email u) (tokenVersion storedToken + 1)"
  defines "row \<equiv> \<lparr>rid = newId e, token = refreshToken tokens,
              userId = userId storedToken, tokenVersion = tokenVersion storedToken + 1,
              sessionId = freshSessionId e, expiresAt = setDate_plus7 e (now e),
              createdAt = now e, updatedAt = now e\<rparr>"
  shows "(if list_ex (\<lambda>r. rid r = newId e \<or> sessionId r = freshSessionId e) others
          then refreshToken_op cfg e tok d = (Inl (PrismaError ''P2002''), d)
          else refreshToken_op cfg e tok d = (Inr tokens, d\<lparr>refreshTokens := others @ [row]\<rparr>)
             \<and> list_all (\<lambda>r. sessionId r \<noteq> sessionId row \<and> rid r \<noteq> rid row
                              \<and> token r \<noteq> token row) others)
     \<and> (localTZA e (now e + localTZA e (now e) True + 604800000) False = localTZA e (now e) True
          \<longrightarrow> expiresAt row = now e + 604800000)"
proof -
  note cp = refreshToken_body_checks_pass [OF assms(1-5)]
  have 1: "list_all (\<lambda>r. token r \<noteq> token row) others"
    using cp(3) by (simp add: row_def tokens_def others_def)
  have 2: "refreshToken_body cfg e tok d =
      (if list_ex (\<lambda>r. rid r = newId e \<or> sessionId r = freshSessionId e) others
       then (Inl (PrismaError ''P2002''), d\<lparr>refreshTokens := others\<rparr>)
       else (Inr tokens, d\<lparr>refreshTokens := others @ [row]\<rparr>))"
    using cp(4) by (simp add: row_def tokens_def others_def)
  have 3: "list_all (\<lambda>r. sessionId r \<noteq> sessionId row \<and> rid r \<noteq> rid row \<and> token r \<noteq> token row) others"
    if "\<not> list_ex (\<lambda>r. rid r = newId e \<or> sessionId r = freshSessionId e) others"
    using that 1 by (auto simp: list_all_iff list_ex_iff row_def)
  have 4: "localTZA e (now e + localTZA e (now e) True + 604800000) False = localTZA e (now e) True
          \<longrightarrow> expiresAt row = now e + 604800000"
    by (simp add: row_def setDate_plus7_def Let_def)
  show ?thesis
    using 2 3 4 by (simp add: refreshToken_op_def transaction_def)
qed

theorem C1_witness:
  "rows_agree db1
   \<and> findUnique_token (refreshTokens db1) R1 = Some row1
   \<and> \<not> expiresAt row1 < now (env_at 2000 ''b'')
   \<and> verifyRefreshToken cfg0 (now (env_at 2000 ''b'')) R1 = Inr claimsR1
   \<and> findUserById db1 (p_userId claimsR1) = Some user1
   \<and> p_tokenVersion claimsR1 = Some (tokenVersion row1)
   \<and> \<not> list_ex (\<lambda>r. rid r = newId (env_at 2000 ''b'')
                     \<or> sessionId r = freshSessionId (env_at 2000 ''b''))
            (filter (\<lambda>r. userId r \<noteq> userId row1) (refreshTokens db1))
   \<and> localTZA (env_at 2000 ''b'') (now (env_at 2000 ''b'')
          + localTZA (env_at 2000 ''b'') (now (env_at 2000 ''b'')) True + 604800000) False
       = localTZA (env_at 2000 ''b'') (now (env_at 2000 ''b'')) True
   \<and> (\<exists>tokens. refreshToken_op cfg0 (env_at 2000 ''b'') R1 db1 =
        (Inr tokens,
         db1\<lparr>refreshTokens :=
            [\<lparr>rid = ''b'', token = refreshToken tokens, userId = ''a'', tokenVersion = 2,
              sessionId = ''2000-b'', expiresAt = 604802000, createdAt = 2000,
              updatedAt = 2000\<rparr>]\<rparr>))"
proof -
  have z: "localTZA (env_at 2000 ''b'') (now (env_at 2000 ''b'')
          + localTZA (env_at 2000 ''b'') (now (env_at 2000 ''b'')) True + 604800000) False
       = localTZA (env_at 2000 ''b'') (now (env_at 2000 ''b'')) True"
    by (simp add: env_at_def)
  have f: "filter (\<lambda>r. userId r \<noteq> userId row1) (refreshTokens db1) = []"
    by (simp add: db1_eval row1_def)
  have f': "filter (\<lambda>r. userId r \<noteq> ''a'') (refreshTokens db1) = []"
    by (simp add: db1_eval)
  have s: "freshSessionId (env_at 2000 ''b'') = ''2000-b''"
    by code_simp
  have n: "newId (env_at 2000 ''b'') = ''b''" "now (env_at 2000 ''b'') = 2000"
    by (simp_all add: env_at_def)
  have x: "setDate_plus7 (env_at 2000 ''b'') 2000 = 604802000"
    by code_simp
  have u: "userId row1 = ''a''" "tokenVersion row1 + 1 = 2"
    by (simp_all add: row1_def)
  from C1_rotate_step [OF db1_agree row1_lookup row1_live R1_valid u1_found R1_version]
  have "\<exists>tokens. refreshToken_op cfg0 (env_at 2000 ''b'') R1 db1 =
        (Inr tokens,
         db1\<lparr>refreshTokens :=
            [\<lparr>rid = ''b'', token = refreshToken tokens, userId = ''a'', tokenVersion = 2,
              sessionId = ''2000-b'', expiresAt = 604802000, createdAt = 2000,
              updatedAt = 2000\<rparr>]\<rparr>)"
    by (simp add: f' s n x u)
  then show ?thesis
    using db1_agree row1_lookup row1_live R1_valid u1_found R1_version z
    by (simp add: f)
qed

text \<open>
  C1 as stated fails, in three ways. Under a configuration whose refresh tokens live 30
  days, a rotation at time 2000 stores a row that expires at 604802000, seven days on, and
  not at \<open>now\<close> plus the configured lifetime. In New York, a rotation on 5 March 2026 at 12:00
  UTC stores a row that expires at 1773313200000, an hour less than seven times 24 hours
  after \<open>now\<close>, because the clocks change on 8 March. And in a store where another user's
  row has the session id that this call generates, the row of \<open>R1\<close> passes all five checks
  and the call fails on the insert: no row is created and no pair is returned.
\<close>

theorem C1_counterexample:
  "\<not> isl (fst (refreshToken_op cfg30 (env_at 2000 ''b'') R1_30 db1_30))
   \<and> map expiresAt (refreshTokens (snd (refreshToken_op cfg30 (env_at 2000 ''b'') R1_30 db1_30)))
        = [604802000]
   \<and> now (env_at 2000 ''b'') + 1000 * JWT_REFRESH_EXPIRES_IN cfg30 = 2592002000
   \<and> \<not> isl (fst (refreshToken_op cfg0 (env_ny 1772712000000 ''b'') R1_ny db1_ny))
   \<and> map expiresAt (refreshTokens (snd (refreshToken_op cfg0 (env_ny 1772712000000 ''b'') R1_ny
        db1_ny))) = [1773313200000]
   \<and> now (env_ny 1772712000000 ''b'') + 7 * 24 * 60 * 60 * 1000 = 1773316800000
   \<and> findUnique_token (refreshTokens db_two) R1 = Some row1
   \<and> \<not> expiresAt row1 < now env_again
   \<and> verifyRefreshToken cfg0 (now env_again) R1 = Inr claimsR1
   \<and> findUserById db_two (p_userId claimsR1) = Some user1
   \<and> p_tokenVersion claimsR1 = Some (tokenVersion row1)
   \<and> refreshToken_op cfg0 env_again R1 db_two = (Inl (PrismaError ''P2002''), db_two)"
  using rotate30_succeeds rotate30_expiresAt rotate30_ttl rotate_ny_succeeds rotate_ny_expiresAt
    rotate_ny_ttl two_lookup two_live two_valid two_user R1_version two_refused
  by blast



text \<open>
  C3. \<open>refreshToken\<close> runs its whole body as one transaction (\<^verbatim>\<open>$transaction\<close>, with the
  lookup, the deletes and the insert on the transaction's client), and every check fails
  by throwing out of the callback. So whenever \<open>refreshToken\<close> fails, at any check, the
  user table and the session table are what they were before the call. The checks other
  than the expiry check do not even write inside the transaction: the callback returns the
  store it was given. The expiry check deletes the expired row inside the transaction and
  then throws, and the rollback undoes the delete.
\<close>

theorem C3_failed_rotate_changes_nothing:
  "(isl (fst (refreshToken_op cfg e tok d)) \<longrightarrow> snd (refreshToken_op cfg e tok d) = d)
   \<and> (\<forall>m d'. refreshToken_body cfg e tok d = (Inl (AuthenticationError m), d')
          \<and> m \<noteq> ''Refresh token has expired'' \<longrightarrow> d' = d)"
proof
  show "isl (fst (refreshToken_op cfg e tok d)) \<longrightarrow> snd (refreshToken_op cfg e tok d) = d"
    by (auto simp: refreshToken_op_def transaction_def split: prod.splits sum.splits)
next
  show "\<forall>m d'. refreshToken_body cfg e tok d = (Inl (AuthenticationError m), d')
          \<and> m \<noteq> ''Refresh token has expired'' \<longrightarrow> d' = d"
    by (auto simp: refreshToken_body_def Let_def delete_id_def create_session_def
        split: option.splits sum.splits if_splits)
qed

theorem C3_witness:
  "isl (fst (refreshToken_op cfg0 (env_at 700000000 ''b'') R1 db1))
   \<and> snd (refreshToken_op cfg0 (env_at 700000000 ''b'') R1 db1) = db1
   \<and> fst (refreshToken_body cfg0 (env_at 2000 ''b'') (NotJwt ''x'') db1) =
       Inl (AuthenticationError ''Invalid or expired refresh token'')
   \<and> snd (refreshToken_body cfg0 (env_at 2000 ''b'') (NotJwt ''x'') db1) = db1"
proof -
  have h: "isl (fst (refreshToken_op cfg0 (env_at 700000000 ''b'') R1 db1))" by code_simp
  have b: "fst (refreshToken_body cfg0 (env_at 2000 ''b'') (NotJwt ''x'') db1) =
       Inl (AuthenticationError ''Invalid or expired refresh token'')" by code_simp
  then have b': "refreshToken_body cfg0 (env_at 2000 ''b'') (NotJwt ''x'') db1 =
       (Inl (AuthenticationError ''Invalid or expired refresh token''),
        snd (refreshToken_body cfg0 (env_at 2000 ''b'') (NotJwt ''x'') db1))"
    by (metis prod.collapse)
  have n: "''Invalid or expired refresh token'' \<noteq> ''Refresh token has expired''" by simp
  from C3_failed_rotate_changes_nothing [of cfg0 "env_at 700000000 ''b''" R1 db1] h
  have 1: "snd (refreshToken_op cfg0 (env_at 700000000 ''b'') R1 db1) = db1" by blast
  from C3_failed_rotate_changes_nothing [of cfg0 "env_at 2000 ''b''" "NotJwt ''x''" db1] b' n
  have 2: "snd (refreshToken_body cfg0 (env_at 2000 ''b'') (NotJwt ''x'') db1) = db1" by blast
  from h 1 b 2 show ?thesis by blast
qed

text \<open>
  C4, as amended. When the stored row of the presented token has \<open>expiresAt < now\<close>,
  \<open>refreshToken\<close> fails with 'Refresh token has expired', and every later \<open>refreshToken\<close>
  with the same token fails too.
\<close>

theorem C4_expired_rotate_fails:
  assumes "findUnique_token (refreshTokens d) tok = Some storedToken"
      and "expiresAt storedToken < now e"
  shows "fst (refreshToken_op cfg e tok d) = Inl (AuthenticationError ''Refresh token has expired'')
     \<and> (\<forall>e2. now e \<le> now e2 \<longrightarrow>
           isl (fst (refreshToken_op cfg e2 tok (snd (refreshToken_op cfg e tok d)))))"
proof -
  have 1: "refreshToken_op cfg e tok d = (Inl (AuthenticationError ''Refresh token has expired''), d)"
    using assms by (rule expired_op)
  have "isl (fst (refreshToken_op cfg e2 tok d))" if "now e \<le> now e2" for e2
  proof -
    have "expiresAt storedToken < now e2" using assms(2) that by simp
    then show ?thesis using expired_op [OF assms(1)] by simp
  qed
  then show ?thesis using 1 by simp
qed

theorem C4_witness:
  "findUnique_token (refreshTokens db1) R1 = Some row1
   \<and> expiresAt row1 < now (env_at 700000000 ''b'')
   \<and> now (env_at 700000000 ''b'') \<le> now (env_at 800000000 ''c'')
   \<and> fst (refreshToken_op cfg0 (env_at 700000000 ''b'') R1 db1) =
        Inl (AuthenticationError ''Refresh token has expired'')
   \<and> isl (fst (refreshToken_op cfg0 (env_at 800000000 ''c'') R1
        (snd (refreshToken_op cfg0 (env_at 700000000 ''b'') R1 db1))))"
proof -
  have le: "now (env_at 700000000 ''b'') \<le> now (env_at 800000000 ''c'')" by code_simp
  from C4_expired_rotate_fails [OF row1_lookup row1_expired, of cfg0] le
  show ?thesis using row1_lookup row1_expired by blast
qed

text \<open>
  C4 as stated fails. At \<open>now = expiresAt\<close> the row of \<open>R1\<close> satisfies \<open>expiresAt \<le> now\<close>, yet
  the comparison in the code is strict: the call does not take the expiry branch, fails
  with the verifier's 'Invalid or expired refresh token' instead, and the row stays. And at
  a time well after \<open>expiresAt\<close> the call fails with 'Refresh token has expired', but the
  row is still in the store afterwards: the delete was rolled back with the transaction.
\<close>

theorem C4_counterexample:
  "findUnique_token (refreshTokens db1) R1 = Some row1
   \<and> expiresAt row1 \<le> now (env_at 604801000 ''b'')
   \<and> refreshToken_op cfg0 (env_at 604801000 ''b'') R1 db1 =
        (Inl (AuthenticationError ''Invalid or expired refresh token''), db1)
   \<and> expiresAt row1 \<le> now (env_at 700000000 ''b'')
   \<and> refreshToken_op cfg0 (env_at 700000000 ''b'') R1 db1 =
        (Inl (AuthenticationError ''Refresh token has expired''), db1)
   \<and> row1 \<in> set (refreshTokens db1)"
  by code_simp

text \<open>
  C5. The callback of \<open>refreshToken\<close> takes no lock, asks for no isolation level and does
  not look at how many rows its \<^verbatim>\<open>deleteMany\<close> removed. So when two calls present \<open>R1\<close> at
  the same time and both transactions start from the same committed store, each callback
  finds the row of \<open>R1\<close>, passes every check and returns a pair: neither call meets 'Invalid
  or expired refresh token' at the lookup or 'Invalid refresh token version'. The two
  refresh tokens differ and both verify afterwards, and the two rows to insert differ in
  id, token and session id, so no unique column refuses the second. The claim asks for
  exactly one success; the code gives two.
\<close>

theorem C5_concurrent_rotates_both_succeed:
  "fst (refreshToken_body cfg0 (env_at 2000 ''b'') R1 db1) =
      Inr (generateTokens cfg0 (env_at 2000 ''b'') ''a'' ''u1@ex.org'' 2)
   \<and> fst (refreshToken_body cfg0 (env_at 2000 ''c'') R1 db1) =
      Inr (generateTokens cfg0 (env_at 2000 ''c'') ''a'' ''u1@ex.org'' 2)
   \<and> refreshToken (generateTokens cfg0 (env_at 2000 ''b'') ''a'' ''u1@ex.org'' 2)
        \<noteq> refreshToken (generateTokens cfg0 (env_at 2000 ''c'') ''a'' ''u1@ex.org'' 2)
   \<and> \<not> isl (verifyRefreshToken cfg0 3000
        (refreshToken (generateTokens cfg0 (env_at 2000 ''b'') ''a'' ''u1@ex.org'' 2)))
   \<and> \<not> isl (verifyRefreshToken cfg0 3000
        (refreshToken (generateTokens cfg0 (env_at 2000 ''c'') ''a'' ''u1@ex.org'' 2)))
   \<and> map rid (refreshTokens (snd (refreshToken_body cfg0 (env_at 2000 ''b'') R1 db1))) = [''b'']
   \<and> map sessionId (refreshTokens (snd (refreshToken_body cfg0 (env_at 2000 ''b'') R1 db1)))
        = [''2000-b'']
   \<and> map rid (refreshTokens (snd (refreshToken_body cfg0 (env_at 2000 ''c'') R1 db1))) = [''c'']
   \<and> map sessionId (refreshTokens (snd (refreshToken_body cfg0 (env_at 2000 ''c'') R1 db1)))
        = [''2000-c'']"
  using both_first both_second both_differ both_first_valid both_second_valid both_first_row
    both_second_row
  by blast

text \<open>
  C6. In every store that the public operations can reach, each session row's
  \<open>tokenVersion\<close> is the \<open>tokenVersion\<close> claim that its refresh token decodes to: register,
  login and rotation sign the token with the version they store.
\<close>

theorem C6_row_version_is_token_version:
  "reachable cfg d \<Longrightarrow>
     \<forall>r \<in> set (refreshTokens d). \<exists>c. decodeToken (token r) = Some c
        \<and> p_tokenVersion c = Some (tokenVersion r)"
proof -
  assume "reachable cfg d"
  then have "rows_agree d" by (rule reachable_rows_agree)
  then show ?thesis
    by (auto simp: rows_agree_def list_all_iff row_agrees_def split: option.splits)
qed

theorem C6_witness:
  "reachable cfg0 db2
   \<and> (\<exists>r c. r \<in> set (refreshTokens db2) \<and> decodeToken (token r) = Some c
          \<and> p_tokenVersion c = Some (tokenVersion r))"
proof -
  have "refreshTokens db2 \<noteq> []" by code_simp
  then obtain r where r: "r \<in> set (refreshTokens db2)"
    by (cases "refreshTokens db2") auto
  with C6_row_version_is_token_version [OF reachable_db2]
  obtain c where "decodeToken (token r) = Some c" "p_tokenVersion c = Some (tokenVersion r)"
    by blast
  with r reachable_db2 show ?thesis by blast
qed

text \<open>
  C7, as amended. \<open>getUserTokenVersion\<close> returns the largest \<open>tokenVersion\<close> among all the
  stored session rows of the user, expired ones included (the query has no condition on
  \<open>expiresAt\<close>), and 1 when the user has no stored row, or when that largest version is 0.
\<close>

theorem C7_getUserTokenVersion_max_of_stored:
  fixes d uid
  defines "rows \<equiv> filter (\<lambda>r. userId r = uid) (refreshTokens d)"
  shows "getUserTokenVersion d uid =
     (if rows = [] then 1
      else if Max (tokenVersion ` set rows) = 0 then 1
      else Max (tokenVersion ` set rows))"
proof (cases "rows = []")
  case True
  then show ?thesis by (simp add: getUserTokenVersion_def rows_def)
next
  case False
  let ?s = "sort_key tokenVersion rows"
  have ne: "?s \<noteq> []" using False by (metis length_0_conv length_sort)
  have m: "tokenVersion (last ?s) = Max (tokenVersion ` set rows)"
    using last_sorted_Max [of ?s tokenVersion] ne by simp
  obtain r rs where rv: "rev ?s = r # rs" using ne by (cases "rev ?s") auto
  have "last ?s = hd (rev ?s)" using ne by (simp add: hd_rev)
  then have "tokenVersion r = Max (tokenVersion ` set rows)" using rv m by simp
  moreover have "getUserTokenVersion d uid = (if tokenVersion r = 0 then 1 else tokenVersion r)"
    unfolding getUserTokenVersion_def rows_def [symmetric] rv by simp
  ultimately show ?thesis using False by simp
qed

text \<open>
  C7 as stated fails: after \<open>u1\<close> has registered and rotated once, the only row of the
  user has version 2 and expires at 604802000. At time 700000000 the user has no live
  row, so the specification's \<open>currentVersion\<close> is 1, and \<open>getUserTokenVersion\<close> returns 2.
\<close>

theorem C7_counterexample:
  "live_rows 700000000 db2 ''a'' = []
   \<and> currentVersion_spec 700000000 db2 ''a'' = 1
   \<and> getUserTokenVersion db2 ''a'' = 2"
  by code_simp

text \<open>
  C8. For every user id, email and version, \<open>generateTokens\<close> returns an access token
  and a refresh token that decode to claims with exactly the given user id and email
  (access) and user id and version (refresh); the two \<open>jti\<close> values differ; and each token
  verifies to the same claims at any time before its expiry.
\<close>

theorem C8_generateTokens_claims:
  fixes cfg e uid em ver t
  defines "tk \<equiv> generateTokens cfg e uid em ver"
  shows "\<exists>a r. decodeToken (accessToken tk) = Some a \<and> decodeToken (refreshToken tk) = Some r
     \<and> p_userId a = uid \<and> p_email a = Some em \<and> p_tokenVersion a = None
     \<and> p_userId r = uid \<and> p_tokenVersion r = Some ver \<and> p_email r = None
     \<and> p_jti a \<noteq> None \<and> p_jti r \<noteq> None \<and> p_jti a \<noteq> p_jti r
     \<and> (t div 1000 < now e div 1000 + JWT_EXPIRES_IN cfg \<longrightarrow>
           verifyAccessToken cfg t (accessToken tk) = Inr a)
     \<and> (t div 1000 < now e div 1000 + JWT_REFRESH_EXPIRES_IN cfg \<longrightarrow>
           verifyRefreshToken cfg t (refreshToken tk) = Inr r)"
  by (simp add: tk_def generateTokens_def generateAccessToken_def generateRefreshToken_def
      jwt_sign_def decodeToken_def jwt_decode_def verifyAccessToken_def verifyRefreshToken_def
      jwt_verify_def)

theorem C8_witness:
  "(2000::int) div 1000 < now (env_at 1000 ''a'') div 1000 + JWT_EXPIRES_IN cfg0
   \<and> (2000::int) div 1000 < now (env_at 1000 ''a'') div 1000 + JWT_REFRESH_EXPIRES_IN cfg0
   \<and> (\<exists>a r. verifyAccessToken cfg0 2000 A1 = Inr a \<and> verifyRefreshToken cfg0 2000 R1 = Inr r
         \<and> p_userId a = ''a'' \<and> p_email a = Some ''u1@ex.org''
         \<and> p_userId r = ''a'' \<and> p_tokenVersion r = Some 1 \<and> p_jti a \<noteq> p_jti r)"
proof -
  have h1: "(2000::int) div 1000 < now (env_at 1000 ''a'') div 1000 + JWT_EXPIRES_IN cfg0"
    by (simp add: env_at_def cfg0_def)
  have h2: "(2000::int) div 1000 < now (env_at 1000 ''a'') div 1000 + JWT_REFRESH_EXPIRES_IN cfg0"
    by (simp add: env_at_def cfg0_def)
  from C8_generateTokens_claims [of cfg0 "env_at 1000 ''a''" "''a''" "''u1@ex.org''" 1 2000] h1 h2
  show ?thesis unfolding A1_def R1_def by blast
qed

text \<open>
  C9, as amended. For an access token that verifies (signature, issuer, audience, expiry)
  and whose \<open>userId\<close> names no user, the \<^verbatim>\<open>try\<close> block of \<open>validateAccessToken\<close> raises
  'User not found', the \<^verbatim>\<open>catch\<close> replaces it, and \<open>validateAccessToken\<close> and the middleware
  fail with the \<open>AuthenticationError\<close> 'Invalid or expired access token'.
\<close>

theorem C9_user_gone_amended:
  assumes "verifyAccessToken cfg t tok = Inr payload"
      and "findUserById d (p_userId payload) = None"
  shows "validateAccessToken_try cfg t d tok = Inl (AuthenticationError ''User not found'')
     \<and> validateAccessToken cfg t d tok = Inl (AuthenticationError ''Invalid or expired access token'')
     \<and> authenticate cfg t d \<lparr>authorization = Some (Bearer tok), cookies_accessToken = ck\<rparr>
         = Inl (AuthenticationError ''Invalid or expired access token'')"
proof -
  have "tok \<noteq> NotJwt []"
    using assms(1) by (auto simp: verifyAccessToken_def jwt_verify_def)
  then show ?thesis using assms
    by (simp add: validateAccessToken_def authenticate_def validateAccessToken_try_def Let_def
        present_def)
qed

theorem C9_witness:
  "verifyAccessToken cfg0 2000 A1 = Inr claimsA1
   \<and> findUserById db_gone (p_userId claimsA1) = None
   \<and> validateAccessToken_try cfg0 2000 db_gone A1 = Inl (AuthenticationError ''User not found'')
   \<and> validateAccessToken cfg0 2000 db_gone A1 =
        Inl (AuthenticationError ''Invalid or expired access token'')
   \<and> authenticate cfg0 2000 db_gone reqA1 =
        Inl (AuthenticationError ''Invalid or expired access token'')"
  using C9_user_gone_amended [OF A1_verifies u1_gone, of None] A1_verifies u1_gone
  unfolding reqA1_def by blast

text \<open>
  C9 as stated fails: \<open>A1\<close> verifies at time 2000, its user has been removed, and neither
  \<open>validateAccessToken\<close> nor the middleware fails with 'User not found'.
\<close>

theorem C9_counterexample:
  "verifyAccessToken cfg0 2000 A1 = Inr claimsA1
   \<and> findUserById db_gone (p_userId claimsA1) = None
   \<and> validateAccessToken cfg0 2000 db_gone A1 \<noteq> Inl (AuthenticationError ''User not found'')
   \<and> authenticate cfg0 2000 db_gone reqA1 \<noteq> Inl (AuthenticationError ''User not found'')"
  by code_simp

text \<open>
  C10. Whenever \<open>validateAccessToken\<close> or the \<open>authenticate\<close> middleware fails, the error is
  the \<open>AuthenticationError\<close> with the message 'Invalid or expired access token': for a
  malformed token, a token signed with another secret, an expired token and a token whose
  user is gone alike.
\<close>

theorem C10_authenticate_failure_uniform:
  "(isl (validateAccessToken cfg t d tok) \<longrightarrow>
      validateAccessToken cfg t d tok = Inl (AuthenticationError ''Invalid or expired access token''))
   \<and> (isl (authenticate cfg t d req) \<longrightarrow>
      authenticate cfg t d req = Inl (AuthenticationError ''Invalid or expired access token''))
   \<and> validateAccessToken cfg t d (NotJwt s) =
        Inl (AuthenticationError ''Invalid or expired access token'')
   \<and> (k \<noteq> JWT_SECRET cfg \<longrightarrow> validateAccessToken cfg t d (Jwt k c) =
        Inl (AuthenticationError ''Invalid or expired access token''))
   \<and> (p_exp c \<le> t div 1000 \<longrightarrow> validateAccessToken cfg t d (Jwt k c) =
        Inl (AuthenticationError ''Invalid or expired access token''))
   \<and> (findUserById d (p_userId c) = None \<longrightarrow> validateAccessToken cfg t d (Jwt k c) =
        Inl (AuthenticationError ''Invalid or expired access token''))"
proof (intro conjI impI)
  assume "isl (validateAccessToken cfg t d tok)"
  then show "validateAccessToken cfg t d tok = Inl (AuthenticationError ''Invalid or expired access token'')"
    by (auto simp: validateAccessToken_def split: sum.splits)
next
  assume "isl (authenticate cfg t d req)"
  then show "authenticate cfg t d req = Inl (AuthenticationError ''Invalid or expired access token'')"
    by (auto simp: authenticate_def Let_def split: sum.splits)
next
  show "validateAccessToken cfg t d (NotJwt s) =
        Inl (AuthenticationError ''Invalid or expired access token'')"
    by (simp add: validateAccessToken_def validateAccessToken_try_def verifyAccessToken_def
        jwt_verify_def)
next
  assume "k \<noteq> JWT_SECRET cfg"
  then show "validateAccessToken cfg t d (Jwt k c) =
        Inl (AuthenticationError ''Invalid or expired access token'')"
    by (simp add: validateAccessToken_def validateAccessToken_try_def verifyAccessToken_def
        jwt_verify_def)
next
  assume "p_exp c \<le> t div 1000"
  then show "validateAccessToken cfg t d (Jwt k c) =
        Inl (AuthenticationError ''Invalid or expired access token'')"
    by (simp add: validateAccessToken_def validateAccessToken_try_def verifyAccessToken_def
        jwt_verify_def)
next
  assume "findUserById d (p_userId c) = None"
  then show "validateAccessToken cfg t d (Jwt k c) =
        Inl (AuthenticationError ''Invalid or expired access token'')"
    by (simp add: validateAccessToken_def validateAccessToken_try_def verifyAccessToken_def
        jwt_verify_def split: sum.splits)
qed

theorem C10_witness:
  "''some-other-secret'' \<noteq> JWT_SECRET cfg0
   \<and> validateAccessToken cfg0 2000 db1 A_foreign =
        Inl (AuthenticationError ''Invalid or expired access token'')
   \<and> p_exp claimsA1 \<le> 2000000 div 1000
   \<and> validateAccessToken cfg0 2000000 db1 A1 =
        Inl (AuthenticationError ''Invalid or expired access token'')
   \<and> findUserById db_gone (p_userId claimsA1) = None
   \<and> validateAccessToken cfg0 2000 db_gone A1 =
        Inl (AuthenticationError ''Invalid or expired access token'')
   \<and> validateAccessToken cfg0 2000 db1 (NotJwt ''garbage'') =
        Inl (AuthenticationError ''Invalid or expired access token'')
   \<and> isl (authenticate cfg0 2000 db_gone reqA1)
   \<and> authenticate cfg0 2000 db_gone reqA1 =
        Inl (AuthenticationError ''Invalid or expired access token'')
   \<and> isl (validateAccessToken cfg0 2000 db1 (NotJwt []))
   \<and> validateAccessToken cfg0 2000 db1 (NotJwt []) =
        Inl (AuthenticationError ''Invalid or expired access token'')"
proof -
  have h0: "isl (validateAccessToken cfg0 2000 db1 (NotJwt []))" by code_simp
  from C10_authenticate_failure_uniform [of cfg0 2000 db1 "NotJwt []"] h0
  have 0: "validateAccessToken cfg0 2000 db1 (NotJwt []) =
        Inl (AuthenticationError ''Invalid or expired access token'')"
    by blast
  have h1: "''some-other-secret'' \<noteq> JWT_SECRET cfg0" by code_simp
  have h2: "p_exp claimsA1 \<le> 2000000 div 1000" by code_simp
  have h4: "isl (authenticate cfg0 2000 db_gone reqA1)" by code_simp
  from C10_authenticate_failure_uniform [of cfg0 2000 db1 A1 reqA1 "''garbage''" "''some-other-secret''" claimsA1] h1
  have 1: "validateAccessToken cfg0 2000 db1 A_foreign =
        Inl (AuthenticationError ''Invalid or expired access token'')"
    and 4: "validateAccessToken cfg0 2000 db1 (NotJwt ''garbage'') =
        Inl (AuthenticationError ''Invalid or expired access token'')"
    unfolding A_foreign_eval by blast+
  from C10_authenticate_failure_uniform [of cfg0 2000000 db1 A1 reqA1 "''garbage''" "''access-secret''" claimsA1] h2
  have 2: "validateAccessToken cfg0 2000000 db1 A1 =
        Inl (AuthenticationError ''Invalid or expired access token'')"
    unfolding A1_eval by blast
  from C10_authenticate_failure_uniform [of cfg0 2000 db_gone A1 reqA1 "''garbage''" "''access-secret''" claimsA1] u1_gone h4
  have 3: "validateAccessToken cfg0 2000 db_gone A1 =
        Inl (AuthenticationError ''Invalid or expired access token'')"
    and 5: "authenticate cfg0 2000 db_gone reqA1 =
        Inl (AuthenticationError ''Invalid or expired access token'')"
    unfolding A1_eval by blast+
  from h0 h1 h2 u1_gone h4 0 1 2 3 4 5 show ?thesis by blast
qed

end
